theory Spec2Isabelle
  imports Complex_Main "HOL-Library.Char_ord" "HOL-Library.AList"
begin

section \<open>Python strings\<close>

text \<open>
  A Python \<open>str\<close> is modelled as a HOL \<open>string\<close> in which every \<open>char\<close> stands for one
  code point of the range U+0000 .. U+00FF, so that \<open>length\<close> is Python's \<open>len\<close> on that
  range. \<open>str.isspace\<close>, \<open>str.lower\<close>, \<open>str.strip\<close>, \<open>str.split\<close> (without argument),
  \<open>str.startswith\<close> and the substring test \<open>in\<close> are written out for this range.
\<close>

definition py_isspace :: "char \<Rightarrow> bool" where
  "py_isspace c =
     (let n = (of_char c :: nat)
      in (9 \<le> n \<and> n \<le> 13) \<or> (28 \<le> n \<and> n \<le> 32) \<or> n = 133 \<or> n = 160)"

definition py_lower_char :: "char \<Rightarrow> char" where
  "py_lower_char c =
     (let n = (of_char c :: nat)
      in if (65 \<le> n \<and> n \<le> 90) \<or> (192 \<le> n \<and> n \<le> 222 \<and> n \<noteq> 215)
         then char_of (n + 32) else c)"

definition py_lower :: "string \<Rightarrow> string" where
  "py_lower s = map py_lower_char s"

definition py_strip :: "string \<Rightarrow> string" where
  "py_strip s = rev (dropWhile py_isspace (rev (dropWhile py_isspace s)))"

fun py_split_aux :: "string \<Rightarrow> string \<Rightarrow> string list" where
  "py_split_aux w [] = (if w = [] then [] else [w])"
| "py_split_aux w (c # cs) =
     (if py_isspace c
      then (if w = [] then py_split_aux [] cs else w # py_split_aux [] cs)
      else py_split_aux (w @ [c]) cs)"

definition py_split :: "string \<Rightarrow> string list" where
  "py_split s = py_split_aux [] s"

fun startswith :: "string \<Rightarrow> string \<Rightarrow> bool" where
  "startswith s [] = True"
| "startswith [] (p # ps) = False"
| "startswith (c # cs) (p # ps) = (c = p \<and> startswith cs ps)"

text \<open>\<open>py_in p s\<close> is Python's \<open>p in s\<close> on strings.\<close>

fun py_in :: "string \<Rightarrow> string \<Rightarrow> bool" where
  "py_in p [] = (p = [])"
| "py_in p (c # cs) = (startswith (c # cs) p \<or> py_in p cs)"

text \<open>\<open>str_nat n\<close> is Python's \<open>str(n)\<close> for a non-negative integer, as an f-string prints it.\<close>

fun str_nat :: "nat \<Rightarrow> string" where
  "str_nat n =
     (if n < 10 then [char_of (48 + n)]
      else str_nat (n div 10) @ [char_of (48 + n mod 10)])"

declare str_nat.simps [simp del]

section \<open>Domain errors\<close>

text \<open>
  The exception classes of \<open>domain/errors.py\<close> that the modelled code raises or catches,
  each carrying its \<open>message\<close>. \<open>ContentIntegrityError\<close> is a subclass of
  \<open>ContentQualityError\<close>; \<open>ValidationError\<close> stands for itself and its subclasses
  \<open>PreferenceValidationError\<close> and \<open>CampaignValidationError\<close>; every other Python
  exception is \<open>OtherException\<close>.
\<close>

datatype error =
    ContentIntegrityError string
  | ContentQualityError string
  | ExternalServiceError string
  | CampaignGenerationError string
  | ValidationError string
  | OtherException string

fun message :: "error \<Rightarrow> string" where
  "message (ContentIntegrityError m) = m"
| "message (ContentQualityError m) = m"
| "message (ExternalServiceError m) = m"
| "message (CampaignGenerationError m) = m"
| "message (ValidationError m) = m"
| "message (OtherException m) = m"

fun is_ContentIntegrityError :: "error \<Rightarrow> bool" where
  "is_ContentIntegrityError (ContentIntegrityError m) = True"
| "is_ContentIntegrityError e = False"

fun is_ContentQualityError :: "error \<Rightarrow> bool" where
  "is_ContentQualityError (ContentIntegrityError m) = True"
| "is_ContentQualityError (ContentQualityError m) = True"
| "is_ContentQualityError e = False"

fun is_ExternalServiceError :: "error \<Rightarrow> bool" where
  "is_ExternalServiceError (ExternalServiceError m) = True"
| "is_ExternalServiceError e = False"

section \<open>Dynamically typed values\<close>

text \<open>
  Values whose Python type is \<open>Any\<close> (the fields of a campaign concept, an image entry,
  the content of a cache file) are JSON values: \<open>None\<close>, booleans, numbers, strings,
  lists, and dictionaries with string keys. A dictionary is an association list in
  insertion order, read with \<open>map_of\<close>.
\<close>

datatype pyval =
    PyNone
  | PyBool bool
  | PyNum rat
  | PyStr string
  | PyList "pyval list"
  | PyDict "(string \<times> pyval) list"

type_synonym pydict = "(string \<times> pyval) list"

text \<open>Python's truth value of an object, as \<open>if x:\<close> and \<open>not x\<close> test it.\<close>

fun truthy :: "pyval \<Rightarrow> bool" where
  "truthy PyNone = False"
| "truthy (PyBool b) = b"
| "truthy (PyNum n) = (n \<noteq> 0)"
| "truthy (PyStr s) = (s \<noteq> [])"
| "truthy (PyList xs) = (xs \<noteq> [])"
| "truthy (PyDict d) = (d \<noteq> [])"

text \<open>\<open>d[key]\<close> on a dictionary raises \<open>KeyError\<close> for a missing key.\<close>

definition dict_item :: "pydict \<Rightarrow> string \<Rightarrow> error + pyval" where
  "dict_item d key =
     (case map_of d key of
        Some v \<Rightarrow> Inr v
      | None \<Rightarrow> Inl (OtherException (''KeyError: '' @ key)))"

section \<open>ContentIntegrityWatchdog\<close>

record ContentIntegrityWatchdog =
  is_active :: bool

definition ContentIntegrityWatchdog_init :: "bool \<Rightarrow> ContentIntegrityWatchdog" where
  "ContentIntegrityWatchdog_init active = \<lparr>is_active = active\<rparr>"

definition set_active :: "ContentIntegrityWatchdog \<Rightarrow> bool \<Rightarrow> ContentIntegrityWatchdog" where
  "set_active w active = w\<lparr>is_active := active\<rparr>"

definition forbidden_patterns :: "string list" where
  "forbidden_patterns =
     [''placeholder'', ''mock'', ''sample text'', ''lorem ipsum'', ''example'',
      ''would be'', ''will contain'', ''to be filled'', ''[content]'', ''content here'',
      ''would go here'', ''to be generated'', ''will be filled'', ''example content'',
      ''template'', ''dummy'', ''fake'', ''coming soon'', ''tbd'', ''todo'',
      ''to be determined'', ''sample data'', ''test content'', ''demo'',
      ''illustration of'', ''example of'', ''placeholder text'',
      ''insert content'', ''replace with'', ''fill in'', ''add here'',
      ''content goes here'', ''your content'', ''sample campaign'',
      ''generic'', ''standard template'', ''boilerplate'']"

definition min_section_lengths :: "(string \<times> nat) list" where
  "min_section_lengths =
     [(''description'', 100), (''introduction'', 200), (''setting'', 300),
      (''background'', 300), (''structure'', 200), (''location'', 200),
      (''npc'', 150), (''encounter'', 200), (''plot'', 300), (''treasure'', 150),
      (''appendix'', 100), (''campaign_concept'', 150), (''story_arc'', 100),
      (''default'', 100)]"

definition forbidden_image_patterns :: "string list" where
  "forbidden_image_patterns =
     [''placeholder'', ''mock'', ''example'', ''sample'', ''test'', ''dummy'',
      ''generic'', ''template'', ''illustration of'', ''example of'',
      ''coming soon'', ''to be generated'', ''placeholder image'']"

text \<open>\<open>min_section_lengths.get(section_name.lower(), min_section_lengths["default"])\<close>\<close>

definition min_length_for :: "string \<Rightarrow> nat" where
  "min_length_for section_name =
     (case map_of min_section_lengths (py_lower section_name) of
        Some n \<Rightarrow> n
      | None \<Rightarrow> (case map_of min_section_lengths ''default'' of Some d \<Rightarrow> d | None \<Rightarrow> 0))"

text \<open>The first entry of a pattern list that occurs in the lower-cased text, as the
  \<open>for pattern in ...\<close> loops find it.\<close>

definition first_pattern_in :: "string list \<Rightarrow> string \<Rightarrow> string option" where
  "first_pattern_in patterns content_lower =
     find (\<lambda>pattern. py_in (py_lower pattern) content_lower) patterns"

text \<open>The number of distinct lower-case words: \<open>len(set(content.lower().split()))\<close>.\<close>

definition distinct_word_count :: "string \<Rightarrow> nat" where
  "distinct_word_count content = length (remdups (py_split (py_lower content)))"

definition quote :: "string \<Rightarrow> string" where
  "quote s = [CHR 0x27] @ s @ [CHR 0x27]"

definition empty_content_message :: "string \<Rightarrow> string" where
  "empty_content_message section_name =
     ''CRITICAL: Empty or invalid content for section '' @ quote section_name @ ''. '' @
     ''ALL content must be real AI-generated text.''"

definition forbidden_pattern_message :: "string \<Rightarrow> string \<Rightarrow> string" where
  "forbidden_pattern_message pattern section_name =
     ''CRITICAL: Found forbidden pattern '' @ quote pattern @ '' indicating mock content '' @
     ''in section '' @ quote section_name @ ''. ALL output must be real content.''"

definition too_short_message :: "string \<Rightarrow> nat \<Rightarrow> nat \<Rightarrow> string" where
  "too_short_message section_name len min_length =
     ''CRITICAL: Content for '' @ quote section_name @ '' is suspiciously short '' @
     ''('' @ str_nat len @ '' chars). Minimum expected: '' @ str_nat min_length @ '' chars. '' @
     ''This suggests incomplete or mock content.''"

definition low_variety_message :: "string \<Rightarrow> string" where
  "low_variety_message section_name =
     ''CRITICAL: Content for '' @ quote section_name @ '' lacks sufficient variety. '' @
     ''This suggests template or boilerplate content.''"

definition validate_text_content ::
  "ContentIntegrityWatchdog \<Rightarrow> string \<Rightarrow> pyval \<Rightarrow> error + bool" where
  "validate_text_content w section_name v =
     (if \<not> is_active w then Inr True
      else case v of
        PyStr content \<Rightarrow>
          if content = [] then Inl (ContentIntegrityError (empty_content_message section_name))
          else (case first_pattern_in forbidden_patterns (py_lower content) of
             Some pattern \<Rightarrow>
               Inl (ContentIntegrityError (forbidden_pattern_message pattern section_name))
           | None \<Rightarrow>
               if length (py_strip content) < min_length_for section_name
               then Inl (ContentIntegrityError
                      (too_short_message section_name (length content)
                         (min_length_for section_name)))
               else if distinct_word_count content < 5
               then Inl (ContentIntegrityError (low_variety_message section_name))
               else Inr True)
      | _ \<Rightarrow> Inl (ContentIntegrityError (empty_content_message section_name)))"

definition empty_prompt_message :: string where
  "empty_prompt_message =
     ''CRITICAL: Empty or invalid image prompt. '' @
     ''ALL image prompts must be real and descriptive.''"

definition forbidden_image_pattern_message :: "string \<Rightarrow> string" where
  "forbidden_image_pattern_message pattern =
     ''CRITICAL: Image prompt contains forbidden pattern '' @ quote pattern @ '' '' @
     ''suggesting mock/placeholder image generation.''"

definition short_prompt_message :: "nat \<Rightarrow> string" where
  "short_prompt_message len =
     ''CRITICAL: Image prompt is too short ('' @ str_nat len @ '' chars). '' @
     ''Image prompts must be descriptive and specific.''"

definition template_marker_message :: string where
  "template_marker_message =
     ''CRITICAL: Image prompt contains template markers. '' @
     ''Image prompts must be complete and real.''"

definition validate_image_prompt :: "ContentIntegrityWatchdog \<Rightarrow> pyval \<Rightarrow> error + bool" where
  "validate_image_prompt w v =
     (if \<not> is_active w then Inr True
      else case v of
        PyStr image_prompt \<Rightarrow>
          if image_prompt = [] then Inl (ContentIntegrityError empty_prompt_message)
          else (case first_pattern_in forbidden_image_patterns (py_lower image_prompt) of
             Some pattern \<Rightarrow>
               Inl (ContentIntegrityError (forbidden_image_pattern_message pattern))
           | None \<Rightarrow>
               if length (py_strip image_prompt) < 20
               then Inl (ContentIntegrityError (short_prompt_message (length image_prompt)))
               else if list_ex (\<lambda>char. char \<in> set image_prompt) ''[]{}<>''
               then Inl (ContentIntegrityError template_marker_message)
               else Inr True)
      | _ \<Rightarrow> Inl (ContentIntegrityError empty_prompt_message))"

section \<open>Domain entities\<close>

text \<open>
  The enumerations of \<open>domain/value_objects.py\<close> that the orchestrator constructs from
  strings; \<open>CampaignTheme(theme)\<close> raises \<open>ValueError\<close> for a string that is not a value of
  the enumeration.
\<close>

datatype CampaignTheme =
  FANTASY | HORROR | MYSTERY | EXPLORATION | POLITICAL_INTRIGUE | WAR | SUPERNATURAL | CUSTOM

datatype DifficultyLevel = EASY | MEDIUM | HARD | DEADLY

datatype PartySize = SOLO | DUO | SMALL_PARTY | MEDIUM_PARTY | LARGE_PARTY

datatype Duration = ONE_SHOT | SHORT | MEDIUM_DURATION | LONG | EPIC

datatype GenerationStatus = GENERATING | COMPLETED | FAILED | VALIDATING

definition value_error :: "string \<Rightarrow> string \<Rightarrow> error" where
  "value_error v enum_name = OtherException (''ValueError: '' @ quote v @ '' is not a valid '' @ enum_name)"

definition CampaignTheme_of :: "string \<Rightarrow> error + CampaignTheme" where
  "CampaignTheme_of v =
     (case map_of [(''fantasy'', FANTASY), (''horror'', HORROR), (''mystery'', MYSTERY),
                   (''exploration'', EXPLORATION), (''political_intrigue'', POLITICAL_INTRIGUE),
                   (''war'', WAR), (''supernatural'', SUPERNATURAL), (''custom'', CUSTOM)] v of
        Some t \<Rightarrow> Inr t
      | None \<Rightarrow> Inl (value_error v ''CampaignTheme''))"

definition DifficultyLevel_of :: "string \<Rightarrow> error + DifficultyLevel" where
  "DifficultyLevel_of v =
     (case map_of [(''easy'', EASY), (''medium'', MEDIUM), (''hard'', HARD), (''deadly'', DEADLY)] v of
        Some t \<Rightarrow> Inr t
      | None \<Rightarrow> Inl (value_error v ''DifficultyLevel''))"

definition PartySize_of :: "string \<Rightarrow> error + PartySize" where
  "PartySize_of v =
     (case map_of [(''solo'', SOLO), (''duo'', DUO), (''small'', SMALL_PARTY),
                   (''medium'', MEDIUM_PARTY), (''large'', LARGE_PARTY)] v of
        Some t \<Rightarrow> Inr t
      | None \<Rightarrow> Inl (value_error v ''PartySize''))"

definition Duration_of :: "string \<Rightarrow> error + Duration" where
  "Duration_of v =
     (case map_of [(''one_shot'', ONE_SHOT), (''short'', SHORT), (''medium'', MEDIUM_DURATION),
                   (''long'', LONG), (''epic'', EPIC)] v of
        Some t \<Rightarrow> Inr t
      | None \<Rightarrow> Inl (value_error v ''Duration''))"

text \<open>
  \<open>PlayerPreferences\<close>: the fields the orchestrator sets. The five preference fields it
  never sets (\<open>setting\<close>, \<open>character_focus\<close>, \<open>npc_style\<close>, \<open>gameplay_balance\<close>,
  \<open>story_tone\<close>) stay \<open>None\<close> and are left out.
\<close>

record PlayerPreferences =
  pref_theme :: "CampaignTheme option"
  pref_difficulty :: "DifficultyLevel option"
  story_length :: "Duration option"
  specific_elements :: "string list"
  freeform_input :: "string option"

text \<open>
  The metadata dictionary of a section has one of five shapes in the orchestrator; the
  time stamp and the mode that it also stores are left out.
\<close>

datatype section_metadata =
    Cached
  | Generated
  | QualityWarning string
  | ServiceError string
  | UnexpectedError string

record CampaignSection =
  section_id :: string
  title :: string
  content :: string
  images :: "pyval list"
  metadata :: section_metadata

text \<open>
  \<open>Campaign\<close>: \<open>name\<close> and \<open>description\<close> are read from the concept dictionary and are
  therefore JSON values; \<open>world\<close>, \<open>story_hook\<close>, \<open>generated_at\<close>, \<open>user_preferences\<close> and
  \<open>metadata\<close> are constants or time stamps that no modelled function reads and are left out.
\<close>

record Campaign =
  campaign_id :: string
  name :: pyval
  description :: pyval
  theme :: CampaignTheme
  difficulty :: DifficultyLevel
  story_arcs :: "pyval list"
  key_npcs :: "pyval list"
  key_locations :: "pyval list"
  starting_level :: int
  party_size :: PartySize
  expected_duration :: Duration
  quality_score :: rat
  status :: GenerationStatus
  user_id :: string
  sections :: "CampaignSection list"
  cover_image :: "string option"
  player_preferences :: "PlayerPreferences option"

text \<open>\<open>QualityScore.__post_init__\<close>\<close>

definition QualityScore :: "rat \<Rightarrow> error + rat" where
  "QualityScore v =
     (if 0 \<le> v \<and> v \<le> 5 then Inr v
      else Inl (OtherException ''ValueError: Quality score must be between 0 and 5''))"

text \<open>\<open>Campaign._validate\<close>, run by the constructor.\<close>

definition Campaign_validate :: "Campaign \<Rightarrow> error + unit" where
  "Campaign_validate c =
     (if \<not> (1 \<le> starting_level c \<and> starting_level c \<le> 20)
      then Inl (OtherException ''ValueError: Starting level must be between 1 and 20'')
      else if quality_score c < 0 \<or> quality_score c > 5
      then Inl (OtherException ''ValueError: Quality score must be between 0 and 5'')
      else if length (story_arcs c) < 1
      then Inl (OtherException ''ValueError: Campaign must have at least one story arc'')
      else if length (key_npcs c) < 2
      then Inl (OtherException ''ValueError: Campaign must have at least 2 key NPCs'')
      else if length (key_locations c) < 2
      then Inl (OtherException ''ValueError: Campaign must have at least 2 key locations'')
      else if list_ex (\<lambda>s. section_id s = [] \<or> title s = []) (sections c)
      then Inl (OtherException ''ValueError: All sections must have valid section_id and title'')
      else Inr ())"

definition add_section :: "Campaign \<Rightarrow> CampaignSection \<Rightarrow> Campaign" where
  "add_section c s = c\<lparr>sections := sections c @ [s]\<rparr>"

section \<open>ContentIntegrityWatchdog on concepts and campaigns\<close>

definition missing_field_message :: "string \<Rightarrow> string" where
  "missing_field_message field = ''CRITICAL: Campaign concept missing required field '' @ quote field"

text \<open>Sequencing of calls that may raise: the first exception ends the sequence.\<close>

definition and_then :: "error + 'a \<Rightarrow> ('a \<Rightarrow> error + 'b) \<Rightarrow> error + 'b" where
  "and_then r f = (case r of Inl e \<Rightarrow> Inl e | Inr x \<Rightarrow> f x)"

definition validate_campaign_concept :: "ContentIntegrityWatchdog \<Rightarrow> pyval \<Rightarrow> error + bool" where
  "validate_campaign_concept w concept =
     (if \<not> is_active w then Inr True
      else case concept of
        PyDict d \<Rightarrow>
          if d = [] then Inl (ContentIntegrityError ''CRITICAL: Invalid campaign concept format'')
          else (case find (\<lambda>field. map_of d field = None)
                       [''title'', ''description'', ''level_range''] of
             Some field \<Rightarrow> Inl (ContentIntegrityError (missing_field_message field))
           | None \<Rightarrow>
               and_then (dict_item d ''title'') (\<lambda>t.
               and_then (validate_text_content w ''concept_title'' t) (\<lambda>_.
               and_then (dict_item d ''description'') (\<lambda>desc.
               and_then (validate_text_content w ''concept_description'' desc) (\<lambda>_.
               case map_of d ''subtitle'' of
                 Some sub \<Rightarrow> validate_text_content w ''concept_subtitle'' sub
               | None \<Rightarrow> Inr True)))))
      | _ \<Rightarrow> Inl (ContentIntegrityError ''CRITICAL: Invalid campaign concept format''))"

text \<open>The loop over the images of a section: only a dictionary with a \<open>"prompt"\<close> key is
  checked.\<close>

fun validate_images :: "ContentIntegrityWatchdog \<Rightarrow> pyval list \<Rightarrow> error + bool" where
  "validate_images w [] = Inr True"
| "validate_images w (img # rest) =
     (case img of
        PyDict d \<Rightarrow>
          (case map_of d ''prompt'' of
             Some prompt \<Rightarrow>
               and_then (validate_image_prompt w prompt) (\<lambda>_. validate_images w rest)
           | None \<Rightarrow> validate_images w rest)
      | _ \<Rightarrow> validate_images w rest)"

fun validate_sections :: "ContentIntegrityWatchdog \<Rightarrow> CampaignSection list \<Rightarrow> error + bool" where
  "validate_sections w [] = Inr True"
| "validate_sections w (s # rest) =
     and_then (validate_text_content w (section_id s) (PyStr (content s))) (\<lambda>_.
     and_then (validate_images w (images s)) (\<lambda>_.
     validate_sections w rest))"

definition validate_entire_campaign :: "ContentIntegrityWatchdog \<Rightarrow> Campaign \<Rightarrow> error + bool" where
  "validate_entire_campaign w campaign =
     (if \<not> is_active w then Inr True
      else
        and_then (validate_text_content w ''campaign_title'' (name campaign)) (\<lambda>_.
        and_then (validate_text_content w ''campaign_description'' (description campaign)) (\<lambda>_.
        and_then (validate_sections w (sections campaign)) (\<lambda>_.
        case player_preferences campaign of
          Some prefs \<Rightarrow>
            (case freeform_input prefs of
               Some input \<Rightarrow>
                 if input \<noteq> [] then validate_text_content w ''player_input'' (PyStr input)
                 else Inr True
             | None \<Rightarrow> Inr True)
        | None \<Rightarrow> Inr True))))"

section \<open>Outcomes and example inputs\<close>

text \<open>A call raised \<open>ContentIntegrityError\<close>.\<close>

definition raises_integrity :: "error + 'a \<Rightarrow> bool" where
  "raises_integrity r = (case r of Inl e \<Rightarrow> is_ContentIntegrityError e | Inr _ \<Rightarrow> False)"

text \<open>A text of 160 characters made of 60 distinct words.\<close>

definition npc_text_160 :: string where
  "npc_text_160 =
     ''a b c d e f g h i j k l m n o p q r s t u v w x y z aa ae ai ao au ba be bi bo bu '' @
     ''ca ce ci co cu da de di do du ea ee ei eo eu fa fe aab aac aad aaf aag aah aaj''"

section \<open>ContentCacheService\<close>

text \<open>
  The cache directory is a map from file paths to files. A file written by \<open>set\<close> holds
  the dictionary \<open>cache_data\<close>; \<open>Unreadable\<close> is a file whose text \<open>json.load\<close> rejects.
  Times are seconds on an integer clock. \<open>writable\<close> tells whether opening a file for
  writing and unlinking a file succeed. \<open>hashlib.md5(key.encode()).hexdigest()\<close> is the
  parameter \<open>md5_hexdigest\<close> of the service.
\<close>

record cache_data =
  entry_content :: pyval
  timestamp :: int
  ttl_seconds :: int
  expires_at :: int

datatype cache_file = Unreadable | CacheData cache_data

record file_system =
  files :: "string \<rightharpoonup> cache_file"
  writable :: bool

record ContentCacheService =
  cache_dir :: string
  md5_hexdigest :: "string \<Rightarrow> string"

definition get_cache_path :: "ContentCacheService \<Rightarrow> string \<Rightarrow> string" where
  "get_cache_path svc key = cache_dir svc @ ''/'' @ md5_hexdigest svc key @ ''.json''"

text \<open>\<open>ContentCacheService.get\<close>: \<open>PyNone\<close> is the miss. No clock is read.\<close>

definition ContentCacheService_get :: "ContentCacheService \<Rightarrow> file_system \<Rightarrow> string \<Rightarrow> pyval" where
  "ContentCacheService_get svc fs key =
     (case files fs (get_cache_path svc key) of
        None \<Rightarrow> PyNone
      | Some Unreadable \<Rightarrow> PyNone
      | Some (CacheData data) \<Rightarrow> entry_content data)"

text \<open>\<open>ContentCacheService.set\<close> at time \<open>now\<close>: the result and the file system after it.\<close>

definition ContentCacheService_set ::
  "ContentCacheService \<Rightarrow> int \<Rightarrow> file_system \<Rightarrow> string \<Rightarrow> pyval \<Rightarrow> int \<Rightarrow> bool \<times> file_system" where
  "ContentCacheService_set svc now fs key v ttl =
     (let cache_data = \<lparr>entry_content = v, timestamp = now, ttl_seconds = ttl,
                         expires_at = now + ttl\<rparr>
      in if writable fs
         then (True, fs\<lparr>files := (files fs)(get_cache_path svc key \<mapsto> CacheData cache_data)\<rparr>)
         else (False, fs))"

definition ContentCacheService_delete ::
  "ContentCacheService \<Rightarrow> file_system \<Rightarrow> string \<Rightarrow> bool \<times> file_system" where
  "ContentCacheService_delete svc fs key =
     (if files fs (get_cache_path svc key) \<noteq> None
      then (if writable fs
            then (True, fs\<lparr>files := (files fs)(get_cache_path svc key := None)\<rparr>)
            else (False, fs))
      else (True, fs))"

definition ContentCacheService_exists :: "ContentCacheService \<Rightarrow> file_system \<Rightarrow> string \<Rightarrow> bool" where
  "ContentCacheService_exists svc fs key = (files fs (get_cache_path svc key) \<noteq> None)"

text \<open>\<open>ContentCacheService.is_expired\<close> at time \<open>now\<close>.\<close>

definition is_expired :: "ContentCacheService \<Rightarrow> int \<Rightarrow> file_system \<Rightarrow> string \<Rightarrow> bool" where
  "is_expired svc now fs key =
     (case files fs (get_cache_path svc key) of
        None \<Rightarrow> True
      | Some Unreadable \<Rightarrow> True
      | Some (CacheData data) \<Rightarrow> now > expires_at data)"

section \<open>WatchdogService\<close>

datatype AlertSeverity = INFO | WARNING | ERROR | CRITICAL

datatype MetricType =
  GENERATION_TIME | QUALITY_SCORE | API_LATENCY | TOKEN_USAGE | ERROR_RATE
  | REGENERATION_RATE | COST

text \<open>
  \<open>Alert\<close> and \<open>Metric\<close> without their \<open>timestamp\<close> and \<open>details\<close>, which no modelled
  function reads.
\<close>

record Alert =
  alert_message :: string
  severity :: AlertSeverity
  alert_source :: string
  resolved :: bool

record Metric =
  metric_type :: MetricType
  metric_value :: rat
  component :: string

record WatchdogService =
  alert_threshold :: nat
  metrics :: "Metric list"
  alerts :: "Alert list"
  error_count :: nat
  api_calls :: "(string \<times> nat) list"
  cost_estimates :: "(string \<times> rat) list"

definition WatchdogService_init :: "nat \<Rightarrow> WatchdogService" where
  "WatchdogService_init threshold =
     \<lparr>alert_threshold = threshold, metrics = [], alerts = [], error_count = 0,
      api_calls = [(''claude'', 0), (''chatgpt'', 0), (''dalle'', 0)],
      cost_estimates = [(''claude'', 0), (''chatgpt'', 0), (''dalle'', 0), (''total'', 0)]\<rparr>"

text \<open>\<open>track_metric\<close>; the periodic save to disk runs under \<open>try\<close>/\<open>except\<close> and changes
  nothing of the service.\<close>

definition track_metric :: "WatchdogService \<Rightarrow> MetricType \<Rightarrow> rat \<Rightarrow> string \<Rightarrow> WatchdogService" where
  "track_metric ws mt v component_name =
     ws\<lparr>metrics := metrics ws @
        [\<lparr>metric_type = mt, metric_value = v, component = component_name\<rparr>]\<rparr>"

text \<open>
  \<open>track_api_call\<close>. A cost of \<open>None\<close> is \<open>cost = None\<close>. The key \<open>"total"\<close> is in
  \<open>cost_estimates\<close> from \<open>__init__\<close> on and no code removes a key, so the subscript
  \<open>cost_estimates["total"]\<close> reads a present key; the model reads a missing one as 0.
\<close>

definition estimate_of :: "(string \<times> rat) list \<Rightarrow> string \<Rightarrow> rat" where
  "estimate_of estimates key = (case map_of estimates key of Some c \<Rightarrow> c | None \<Rightarrow> 0)"

definition track_api_call ::
  "WatchdogService \<Rightarrow> string \<Rightarrow> int \<Rightarrow> rat \<Rightarrow> rat option \<Rightarrow> WatchdogService" where
  "track_api_call ws api_name token_count response_time cost =
     (let ws1 = ws\<lparr>api_calls :=
                  (case map_of (api_calls ws) api_name of
                     Some n \<Rightarrow> AList.update api_name (n + 1) (api_calls ws)
                   | None \<Rightarrow> AList.update api_name 1 (api_calls ws))\<rparr>;
          ws2 = track_metric ws1 TOKEN_USAGE (of_int token_count) api_name;
          ws3 = track_metric ws2 API_LATENCY response_time api_name
      in case cost of
           None \<Rightarrow> ws3
         | Some c \<Rightarrow>
             (let ws4 = track_metric ws3 COST c api_name;
                  ce1 = (case map_of (cost_estimates ws4) api_name of
                           Some e \<Rightarrow> AList.update api_name (e + c) (cost_estimates ws4)
                         | None \<Rightarrow> AList.update api_name c (cost_estimates ws4));
                  ce2 = AList.update ''total'' (estimate_of ce1 ''total'' + c) ce1
              in ws4\<lparr>cost_estimates := ce2\<rparr>))"

record api_usage =
  usage_total_calls :: nat
  avg_tokens_per_call :: rat
  estimated_cost :: rat

record usage_summary =
  total_calls :: nat
  calls_by_api :: "(string \<times> nat) list"
  token_usage :: "(string \<times> api_usage) list"
  total_estimated_cost :: rat

definition get_api_usage_summary :: "WatchdogService \<Rightarrow> usage_summary" where
  "get_api_usage_summary ws =
     (let token_metrics = filter (\<lambda>m. metric_type m = TOKEN_USAGE) (metrics ws);
          usage_of = (\<lambda>(api, calls).
            (let api_metrics = filter (\<lambda>m. component m = api) token_metrics
             in (api,
                 \<lparr>usage_total_calls = calls,
                  avg_tokens_per_call =
                    (if api_metrics \<noteq> []
                     then sum_list (map metric_value api_metrics) / of_nat (length api_metrics)
                     else 0),
                  estimated_cost = estimate_of (cost_estimates ws) api\<rparr>)))
      in \<lparr>total_calls = sum_list (map snd (api_calls ws)),
          calls_by_api = api_calls ws,
          token_usage = map usage_of (api_calls ws),
          total_estimated_cost = estimate_of (cost_estimates ws) ''total''\<rparr>)"

text \<open>A sequence of \<open>track_api_call\<close> invocations, each given by its four arguments.\<close>

fun track_api_calls ::
  "WatchdogService \<Rightarrow> (string \<times> int \<times> rat \<times> rat option) list \<Rightarrow> WatchdogService" where
  "track_api_calls ws [] = ws"
| "track_api_calls ws ((api_name, token_count, response_time, cost) # rest) =
     track_api_calls (track_api_call ws api_name token_count response_time cost) rest"

text \<open>The sum of the cost arguments that are not \<open>None\<close>.\<close>

definition cost_arguments_sum :: "(string \<times> int \<times> rat \<times> rat option) list \<Rightarrow> rat" where
  "cost_arguments_sum invocations =
     sum_list (map (\<lambda>(api_name, token_count, response_time, cost).
                      case cost of Some c \<Rightarrow> c | None \<Rightarrow> 0) invocations)"

section \<open>ContentVerifier and the alerts of the monitoring service\<close>

definition fallback_phrases :: "string list" where
  "fallback_phrases =
     [''I'' @ [CHR 0x27] @ ''m sorry, I cannot'',
      ''I apologize, but I'',
      ''I don'' @ [CHR 0x27] @ ''t have enough information'',
      ''As an AI language model'',
      ''I cannot generate'',
      ''I cannot create'',
      ''I cannot provide'',
      ''Unable to generate'',
      ''Unable to create'',
      ''Unable to provide'']"

definition placeholder_patterns :: "string list" where
  "placeholder_patterns =
     [''{placeholder}'', ''[Insert'', ''[placeholder'', ''PLACEHOLDER'', ''TODO:'',
      ''<placeholder>'', ''<insert'']"

text \<open>The number of required elements that occur in the lower-cased content.\<close>

definition found_elements :: "string list \<Rightarrow> string \<Rightarrow> nat" where
  "found_elements required_elements content_str =
     length (filter (\<lambda>elem. py_in elem (py_lower content_str)) required_elements)"

definition validate_monster_content :: "string \<Rightarrow> bool" where
  "validate_monster_content content_str =
     (found_elements [''armor class'', ''hit points'', ''speed'', ''str'', ''dex'', ''con'']
        content_str \<ge> 4)"

definition validate_location_content :: "string \<Rightarrow> bool" where
  "validate_location_content content_str =
     (found_elements [''description'', ''features'', ''location'', ''area''] content_str \<ge> 2)"

definition validate_npc_content :: "string \<Rightarrow> bool" where
  "validate_npc_content content_str =
     (found_elements [''description'', ''personality'', ''appearance'', ''motivation'']
        content_str \<ge> 2)"

definition verify_content :: "string \<Rightarrow> string \<Rightarrow> bool \<times> string list" where
  "verify_content content_str content_type =
     (if content_str = [] \<or> length (py_strip content_str) < 10
      then (False, [''Empty or too short '' @ content_type @ '' content_str''])
      else
        (let issues =
               map (\<lambda>phrase. ''Fallback phrase detected: '' @ quote phrase)
                 (filter (\<lambda>phrase. py_in (py_lower phrase) (py_lower content_str)) fallback_phrases)
               @ map (\<lambda>pattern. ''Placeholder text detected: '' @ quote pattern)
                 (filter (\<lambda>pattern. py_in (py_lower pattern) (py_lower content_str))
                    placeholder_patterns)
               @ (if content_type = ''monster''
                  then (if \<not> validate_monster_content content_str
                        then [''Monster content_str format validation failed''] else [])
                  else if content_type = ''location''
                  then (if \<not> validate_location_content content_str
                        then [''Location content_str format validation failed''] else [])
                  else if content_type = ''npc''
                  then (if \<not> validate_npc_content content_str
                        then [''NPC content_str format validation failed''] else [])
                  else [])
         in (issues = [], issues)))"

text \<open>\<open>_create_alert\<close>; each registered callback runs under its own \<open>try\<close>/\<open>except\<close> and
  changes nothing of the service.\<close>

definition create_alert ::
  "WatchdogService \<Rightarrow> string \<Rightarrow> AlertSeverity \<Rightarrow> string \<Rightarrow> WatchdogService" where
  "create_alert ws msg sev src =
     ws\<lparr>alerts := alerts ws @
        [\<lparr>alert_message = msg, severity = sev, alert_source = src, resolved = False\<rparr>]\<rparr>"

definition verify_ai_response ::
  "WatchdogService \<Rightarrow> string \<Rightarrow> string \<Rightarrow> string \<Rightarrow> (bool \<times> string list) \<times> WatchdogService" where
  "verify_ai_response ws content_str content_type src =
     (let (is_valid, issues) = verify_content content_str content_type
      in if \<not> is_valid
         then
           (let ws1 = ws\<lparr>error_count := error_count ws + 1\<rparr>;
                ws2 = track_metric ws1 ERROR_RATE 1 src
            in if issues \<noteq> []
               then ((is_valid, issues),
                     create_alert ws2 (''Content verification failed for '' @ content_type)
                       (if error_count ws2 \<ge> alert_threshold ws2 then CRITICAL else WARNING)
                       src)
               else ((is_valid, issues), ws2))
         else ((is_valid, issues), track_metric (ws\<lparr>error_count := 0\<rparr>) ERROR_RATE 0 src))"

section \<open>ClaudeAIService\<close>

text \<open>
  The external generator behind \<open>client.messages.create\<close>: a call either raises (with the
  text of the exception) or responds. \<open>response_text\<close> is \<open>None\<close> when \<open>response.content\<close>
  is empty, \<open>response_usage\<close> is \<open>None\<close> when the response has no \<open>usage\<close> attribute. The
  generator is a function of the number of earlier requests and of the prompt, so that it
  may answer each request differently.
\<close>

record api_response =
  response_text :: "string option"
  response_usage :: "(nat \<times> nat) option"

datatype api_outcome = Raises string | Responds api_response

type_synonym messages_create = "nat \<Rightarrow> string \<Rightarrow> api_outcome"

text \<open>
  The service: \<open>client_available\<close> is \<open>self.client is not None\<close>; \<open>requests\<close> records the
  prompts passed to \<open>client.messages.create\<close>, in order.
\<close>

record ClaudeAIService =
  client_available :: bool
  claude_integrity_watchdog :: ContentIntegrityWatchdog
  claude_watchdog_service :: "WatchdogService option"
  requests :: "string list"

text \<open>
  The value of \<open>_call_claude_api\<close> is the text \<open>json.dumps(response_data)\<close>; the model
  returns the dictionary \<open>response_data\<close> itself, which \<open>json.loads\<close> gives back in the
  \<open>_parse_*\<close> methods.
\<close>

record claude_reply =
  reply_content :: string
  input_tokens :: int
  output_tokens :: int

definition mock_reply :: claude_reply where
  "mock_reply =
     \<lparr>reply_content = ''Mock Claude response - client not available'',
      input_tokens = 100, output_tokens = 200\<rparr>"

definition fallback_reply :: claude_reply where
  "fallback_reply =
     \<lparr>reply_content = ''Error generating content with Claude API'',
      input_tokens = 0, output_tokens = 0\<rparr>"

text \<open>The \<open>except Exception as e\<close> branch of \<open>_call_claude_api\<close>; \<open>e\<close> is \<open>str(e)\<close>.\<close>

definition api_failure_handler ::
  "rat \<Rightarrow> ClaudeAIService \<Rightarrow> string \<Rightarrow> claude_reply \<times> ClaudeAIService" where
  "api_failure_handler response_time svc e =
     (fallback_reply,
      svc\<lparr>claude_watchdog_service :=
        map_option
          (\<lambda>ws. create_alert (track_api_call ws ''claude'' 0 response_time (Some 0))
                  (''Claude API call failed: '' @ e) ERROR ''claude_api'')
          (claude_watchdog_service svc)\<rparr>)"

text \<open>The integrity check on the extracted content, with the exception it raises.\<close>

definition response_integrity_check :: "ContentIntegrityWatchdog \<Rightarrow> string \<Rightarrow> error + unit" where
  "response_integrity_check w content_str =
     (if content_str \<noteq> [] \<and> is_active w
      then (if length (py_strip content_str) > 50
            then (case validate_text_content w ''ai_response'' (PyStr content_str) of
                    Inl e \<Rightarrow>
                      (if is_ContentIntegrityError e
                       then Inl (ContentIntegrityError
                              (''AI generated content_str contains mock/placeholder data: '' @
                               message e))
                       else Inl e)
                  | Inr _ \<Rightarrow> Inr ())
            else Inr ())
      else Inr ())"

text \<open>
  \<open>_call_claude_api\<close>: \<open>create\<close> is the external generator, \<open>response_time\<close> the measured
  duration \<open>time.time() - start_time\<close>.
\<close>

definition call_claude_api ::
  "messages_create \<Rightarrow> rat \<Rightarrow> ClaudeAIService \<Rightarrow> string \<Rightarrow> claude_reply \<times> ClaudeAIService" where
  "call_claude_api create response_time svc prompt =
     (if \<not> client_available svc
      then (mock_reply,
            svc\<lparr>claude_watchdog_service :=
              map_option (\<lambda>ws. track_api_call ws ''claude'' 300 response_time (Some 0))
                (claude_watchdog_service svc)\<rparr>)
      else
        (let outcome = create (length (requests svc)) prompt;
             svc1 = svc\<lparr>requests := requests svc @ [prompt]\<rparr>
         in case outcome of
              Raises e \<Rightarrow> api_failure_handler response_time svc1 e
            | Responds response \<Rightarrow>
                (let content = (case response_text response of Some t \<Rightarrow> t | None \<Rightarrow> []);
                     input_tokens =
                       (case response_usage response of
                          Some (i, out) \<Rightarrow> of_nat i
                        | None \<Rightarrow> of_nat (length (py_split prompt)) * (13 / 10));
                     output_tokens =
                       (case response_usage response of
                          Some (i, out) \<Rightarrow> of_nat out
                        | None \<Rightarrow> of_nat (length (py_split content)) * (13 / 10))
                 in case response_integrity_check (claude_integrity_watchdog svc1) content of
                      Inl e \<Rightarrow> api_failure_handler response_time svc1 (message e)
                    | Inr _ \<Rightarrow>
                        (\<lparr>reply_content = content,
                          input_tokens = \<lfloor>input_tokens :: rat\<rfloor>,
                          output_tokens = \<lfloor>output_tokens :: rat\<rfloor>\<rparr>,
                         svc1\<lparr>claude_watchdog_service :=
                           map_option
                             (\<lambda>ws.
                                (let ws1 = track_api_call ws ''claude''
                                             \<lfloor>input_tokens + output_tokens\<rfloor> response_time
                                             (Some ((input_tokens * 3 + output_tokens * 15)
                                                    / 1000000))
                                 in if content \<noteq> []
                                    then snd (verify_ai_response ws1 content
                                                ''campaign_content'' ''claude'')
                                    else ws1))
                             (claude_watchdog_service svc1)\<rparr>))))"

text \<open>\<open>_parse_section_content_response\<close> on the dictionary of a reply.\<close>

definition parse_section_content_response :: "claude_reply \<Rightarrow> string" where
  "parse_section_content_response reply =
     (let content = reply_content reply
      in if content \<noteq> [] \<and> \<not> startswith (py_strip content) ''{''
         then content
         else if content \<noteq> [] then content else ''Content generation failed'')"

text \<open>
  The nine methods \<open>generate_introduction\<close>, \<open>generate_setting\<close>, ... \<open>generate_appendices_content\<close>
  differ only in the prompt they build; \<open>generate_section_content\<close> is their common body,
  given the built prompt.
\<close>

definition generate_section_content ::
  "messages_create \<Rightarrow> rat \<Rightarrow> ClaudeAIService \<Rightarrow> string \<Rightarrow> (error + string) \<times> ClaudeAIService" where
  "generate_section_content create response_time svc prompt =
     (let (response, svc') = call_claude_api create response_time svc prompt
      in (Inr (parse_section_content_response response), svc'))"

text \<open>A service with a client, an active watchdog and monitoring, before any request.\<close>

definition claude_service_0 :: ClaudeAIService where
  "claude_service_0 =
     \<lparr>client_available = True,
      claude_integrity_watchdog = ContentIntegrityWatchdog_init True,
      claude_watchdog_service = Some (WatchdogService_init 3),
      requests = []\<rparr>"

text \<open>A generator that always fails, one that fails once and then answers, and one that
  answers with five characters.\<close>

definition always_failing :: messages_create where
  "always_failing n prompt = Raises ''Request timed out.''"

definition failing_once :: messages_create where
  "failing_once n prompt =
     (if n = 0 then Raises ''Request timed out.''
      else Responds \<lparr>response_text = Some npc_text_160, response_usage = Some (10, 60)\<rparr>)"

definition answering_short :: messages_create where
  "answering_short n prompt =
     Responds \<lparr>response_text = Some ''short'', response_usage = Some (10, 1)\<rparr>"

section \<open>CompleteCampaignGenerationService: collaborators and state\<close>

text \<open>
  The orchestrator receives its collaborators through its constructor. The content cache
  and the integrity watchdog are the ones modelled above. The AI service, the image
  service with its image cache, and the monitoring service are parameters: each is a
  function on a state \<open>'w\<close> of the outside world, which it may change and on which its
  answer may depend, and each may raise. \<open>obtain_cover_image\<close> stands for the lookup in the
  image cache, the generation of the cover and its caching; \<open>obtain_section_image\<close> for
  the same steps for the image of a section; \<open>report_metric\<close> for \<open>track_metric\<close> and
  \<open>track_quality_score\<close>. An AI method that receives a dictionary computed from the
  concept or the campaign receives the concept or the campaign itself. \<open>uuid4\<close> and \<open>clock\<close>
  are \<open>str(uuid4())\<close> and the time. \<open>concept_cache_key\<close> is \<open>_get_concept_cache_key\<close>, which
  depends on Python's string hash.
\<close>

record 'w collaborators =
  uuid4 :: "'w \<Rightarrow> string \<times> 'w"
  clock :: "'w \<Rightarrow> int"
  ai_generate_campaign_concept :: "PlayerPreferences \<Rightarrow> 'w \<Rightarrow> (error + pyval) \<times> 'w"
  ai_generate_story_arcs :: "pydict \<Rightarrow> 'w \<Rightarrow> (error + pyval) \<times> 'w"
  ai_generate_npcs :: "nat \<Rightarrow> pydict \<Rightarrow> 'w \<Rightarrow> (error + pyval) \<times> 'w"
  ai_generate_locations :: "nat \<Rightarrow> pydict \<Rightarrow> 'w \<Rightarrow> (error + pyval) \<times> 'w"
  ai_generate_section ::
    "string \<Rightarrow> Campaign \<Rightarrow> string option \<Rightarrow> string \<Rightarrow> 'w \<Rightarrow> (error + string) \<times> 'w"
  ai_validate_content_quality :: "Campaign \<Rightarrow> 'w \<Rightarrow> (error + pyval) \<times> 'w"
  obtain_cover_image :: "pyval \<Rightarrow> 'w \<Rightarrow> (error + string option) \<times> 'w"
  obtain_section_image :: "Campaign \<Rightarrow> string \<Rightarrow> 'w \<Rightarrow> (error + string option) \<times> 'w"
  report_metric :: "MetricType \<Rightarrow> pyval \<Rightarrow> string \<Rightarrow> 'w \<Rightarrow> 'w"

record 'w CompleteCampaignGenerationService =
  collaborators :: "'w collaborators"
  content_cache :: ContentCacheService
  content_integrity_watchdog :: ContentIntegrityWatchdog
  concept_cache_key :: "PlayerPreferences \<Rightarrow> string"

text \<open>What a run reads and changes: the files of the content cache and the outside world.\<close>

record 'w orchestration_state =
  store :: file_system
  world :: 'w

section \<open>Generating one section with the cache\<close>

definition section_cache_key :: "Campaign \<Rightarrow> string \<Rightarrow> string" where
  "section_cache_key campaign sec_id = ''section_'' @ sec_id @ ''_'' @ campaign_id campaign"

definition generated_section_error :: "string \<Rightarrow> error \<Rightarrow> error" where
  "generated_section_error sec_id e =
     (if is_ContentIntegrityError e
      then ContentIntegrityError
             (''Generated section '' @ quote sec_id @
              '' contains mock/placeholder content: '' @ message e)
      else e)"

text \<open>The second half of \<open>_generate_section_with_cache\<close>, from "Generate new content" on.\<close>

definition generate_new_content ::
  "'w CompleteCampaignGenerationService \<Rightarrow> Campaign \<Rightarrow> string \<Rightarrow> string \<Rightarrow> string option
   \<Rightarrow> string \<Rightarrow> 'w orchestration_state \<Rightarrow> (error + CampaignSection) \<times> 'w orchestration_state" where
  "generate_new_content svc campaign sec_id sec_title custom_instructions mode st =
     (case ai_generate_section (collaborators svc) sec_id campaign custom_instructions mode
             (world st) of
        (Inl e, w') \<Rightarrow> (Inl e, st\<lparr>world := w'\<rparr>)
      | (Inr new_content, w') \<Rightarrow>
          (let st1 = st\<lparr>world := w'\<rparr>
           in if new_content \<noteq> []
              then (case validate_text_content (content_integrity_watchdog svc) sec_id
                           (PyStr new_content) of
                      Inl e \<Rightarrow> (Inl (generated_section_error sec_id e), st1)
                    | Inr _ \<Rightarrow>
                        (let (ok, fs') =
                               ContentCacheService_set (content_cache svc)
                                 (clock (collaborators svc) (world st1)) (store st1)
                                 (section_cache_key campaign sec_id) (PyStr new_content) 3600
                         in (Inr \<lparr>section_id = sec_id, title = sec_title,
                                  content = new_content, images = [],
                                  metadata = Generated\<rparr>,
                             st1\<lparr>store := fs'\<rparr>)))
              else (Inr \<lparr>section_id = sec_id, title = sec_title,
                         content = ''Error generating '' @ sec_title @ '' section'',
                         images = [], metadata = Generated\<rparr>,
                    st1)))"

text \<open>\<open>_generate_section_with_cache\<close>\<close>

definition generate_section_with_cache ::
  "'w CompleteCampaignGenerationService \<Rightarrow> Campaign \<Rightarrow> string \<Rightarrow> string \<Rightarrow> string option
   \<Rightarrow> string \<Rightarrow> 'w orchestration_state \<Rightarrow> (error + CampaignSection) \<times> 'w orchestration_state" where
  "generate_section_with_cache svc campaign sec_id sec_title custom_instructions mode st =
     (case ContentCacheService_get (content_cache svc) (store st)
             (section_cache_key campaign sec_id) of
        PyStr cached_content \<Rightarrow>
          if cached_content \<noteq> []
          then (case validate_text_content (content_integrity_watchdog svc) sec_id
                       (PyStr cached_content) of
                  Inr _ \<Rightarrow>
                    (Inr \<lparr>section_id = sec_id, title = sec_title, content = cached_content,
                          images = [], metadata = Cached\<rparr>,
                     st)
                | Inl e \<Rightarrow>
                    if is_ContentIntegrityError e
                    then generate_new_content svc campaign sec_id sec_title
                           custom_instructions mode st
                    else (Inl e, st))
          else generate_new_content svc campaign sec_id sec_title custom_instructions mode st
      | _ \<Rightarrow> generate_new_content svc campaign sec_id sec_title custom_instructions mode st)"

section \<open>Example collaborators\<close>

text \<open>
  Collaborators for the examples: the AI service answers the concept request with
  \<open>concept\<close> and the request for the section \<open>sec_id\<close> with \<open>answer sec_id\<close>; its other
  methods raise, the image service finds and generates nothing, and monitoring changes
  nothing. The outside world has one state. In the examples the identity stands for md5.
\<close>

definition scripted_collaborators ::
  "pyval \<Rightarrow> (string \<Rightarrow> error + string) \<Rightarrow> unit collaborators" where
  "scripted_collaborators concept answer =
     \<lparr>uuid4 = (\<lambda>w. (''campaign-1'', w)),
      clock = (\<lambda>w. 0),
      ai_generate_campaign_concept = (\<lambda>preferences w. (Inr concept, w)),
      ai_generate_story_arcs = (\<lambda>d w. (Inl (OtherException ''unavailable''), w)),
      ai_generate_npcs = (\<lambda>n d w. (Inl (OtherException ''unavailable''), w)),
      ai_generate_locations = (\<lambda>n d w. (Inl (OtherException ''unavailable''), w)),
      ai_generate_section = (\<lambda>sec_id campaign custom_instructions mode w. (answer sec_id, w)),
      ai_validate_content_quality = (\<lambda>campaign w. (Inl (OtherException ''unavailable''), w)),
      obtain_cover_image = (\<lambda>concept w. (Inr None, w)),
      obtain_section_image = (\<lambda>campaign sec_id w. (Inr None, w)),
      report_metric = (\<lambda>mt v component_name w. w)\<rparr>"

definition scripted_service ::
  "pyval \<Rightarrow> (string \<Rightarrow> error + string) \<Rightarrow> unit CompleteCampaignGenerationService" where
  "scripted_service concept answer =
     \<lparr>collaborators = scripted_collaborators concept answer,
      content_cache = \<lparr>cache_dir = ''cache/content'', md5_hexdigest = (\<lambda>key. key)\<rparr>,
      content_integrity_watchdog = ContentIntegrityWatchdog_init True,
      concept_cache_key = (\<lambda>preferences. ''campaign_concept_theme_fantasy_0'')\<rparr>"

definition example_campaign :: Campaign where
  "example_campaign =
     \<lparr>campaign_id = ''campaign-1'',
      name = PyStr ''The Ember Crown'',
      description = PyStr ''A kingdom of ash waits for an heir.'',
      theme = FANTASY, difficulty = MEDIUM,
      story_arcs = [], key_npcs = [], key_locations = [],
      starting_level = 1, party_size = SMALL_PARTY, expected_duration = SHORT,
      quality_score = 7 / 2, status = GENERATING, user_id = ''user-1'',
      sections = [], cover_image = None, player_preferences = None\<rparr>"

text \<open>A cache directory that holds, for the introduction of the example campaign, a text
  that the watchdog rejects.\<close>

definition stale_store :: file_system where
  "stale_store =
     \<lparr>files = [''cache/content/section_introduction_campaign-1.json'' \<mapsto>
                 CacheData \<lparr>entry_content = PyStr ''this is placeholder text'',
                            timestamp = 0, ttl_seconds = 3600, expires_at = 3600\<rparr>],
      writable = True\<rparr>"

section \<open>The rule engine of the watchdog\<close>

lemma first_pattern_in_None:
  "first_pattern_in ps s = None \<longleftrightarrow> \<not> list_ex (\<lambda>p. py_in (py_lower p) s) ps"
  by (auto simp: first_pattern_in_def find_None_iff list_ex_iff)

lemma first_pattern_in_Some:
  "first_pattern_in ps s = Some p \<Longrightarrow> list_ex (\<lambda>p. py_in (py_lower p) s) ps"
  by (auto simp: first_pattern_in_def find_Some_iff list_ex_iff)

lemma min_length_for_ge: "100 \<le> min_length_for c"
proof (cases "map_of min_section_lengths (py_lower c)")
  case None
  then show ?thesis by (simp add: min_length_for_def) (simp add: min_section_lengths_def)
next
  case (Some n)
  then have "(py_lower c, n) \<in> set min_section_lengths" by (rule map_of_SomeD)
  then have "100 \<le> n" by (auto simp: min_section_lengths_def)
  with Some show ?thesis by (simp add: min_length_for_def)
qed

lemma min_length_for_table:
  "min_length_for ''description'' = 100"
  "min_length_for ''introduction'' = 200"
  "min_length_for ''npc'' = 150"
  by (simp_all add: min_length_for_def min_section_lengths_def py_lower_def py_lower_char_def)

lemma min_length_for_default:
  "map_of min_section_lengths (py_lower c) = None \<Longrightarrow> min_length_for c = 100"
  by (simp add: min_length_for_def) (simp add: min_section_lengths_def)

lemma py_strip_Nil: "py_strip [] = []"
  by (simp add: py_strip_def)

lemma validate_text_content_passes_iff:
  assumes "is_active w"
  shows "validate_text_content w c (PyStr text) = Inr True \<longleftrightarrow>
   \<not> (py_strip text = []
      \<or> length (py_strip text) < min_length_for c
      \<or> list_ex (\<lambda>p. py_in (py_lower p) (py_lower text)) forbidden_patterns
      \<or> distinct_word_count text < 5)"
proof (cases "first_pattern_in forbidden_patterns (py_lower text)")
  case None
  have pos: "0 < min_length_for c" using min_length_for_ge [of c] by arith
  from None have nf: "\<not> list_ex (\<lambda>p. py_in (py_lower p) (py_lower text)) forbidden_patterns"
    by (simp add: first_pattern_in_None)
  show ?thesis
  proof (cases "text = []")
    case True
    then show ?thesis using assms
      by (simp add: validate_text_content_def py_strip_Nil)
  next
    case False
    have "py_strip text = [] \<Longrightarrow> length (py_strip text) < min_length_for c"
      using pos by simp
    then show ?thesis using False None nf assms
      by (auto simp: validate_text_content_def)
  qed
next
  case (Some p)
  then have "list_ex (\<lambda>p. py_in (py_lower p) (py_lower text)) forbidden_patterns"
    by (rule first_pattern_in_Some)
  then show ?thesis using Some assms
    by (simp add: validate_text_content_def)
qed

lemma validate_text_content_outcome:
  "validate_text_content w c v = Inr True \<or> raises_integrity (validate_text_content w c v)"
  by (simp add: validate_text_content_def raises_integrity_def split: option.splits pyval.splits)

lemma validate_text_content_raises_iff_fails:
  "raises_integrity (validate_text_content w c v) \<longleftrightarrow> validate_text_content w c v \<noteq> Inr True"
  using validate_text_content_outcome [of w c v]
  by (auto simp: raises_integrity_def)

lemma placeholder_example:
  "validate_text_content (ContentIntegrityWatchdog_init True) ''description''
      (PyStr ''this is placeholder text'')
    = Inl (ContentIntegrityError (forbidden_pattern_message ''placeholder'' ''description''))"
  by code_simp

lemma placeholder_mentioned:
  "py_in ''placeholder'' (forbidden_pattern_message ''placeholder'' ''description'')"
  by code_simp

lemma npc_text_160_facts:
  "length npc_text_160 = 160"
  "length (py_strip npc_text_160) = 160"
  "distinct_word_count npc_text_160 = 60"
  "\<not> list_ex (\<lambda>p. py_in (py_lower p) (py_lower npc_text_160)) forbidden_patterns"
  by code_simp+

text \<open>
  Claim C4. With the watchdog active, \<open>validate_text_content\<close> raises
  \<open>ContentIntegrityError\<close> exactly when the text is empty or only whitespace, or its
  stripped length is below the minimum of its category (100 for \<open>description\<close>, 200 for
  \<open>introduction\<close>, 150 for \<open>npc\<close>, 100 for a category that is not in the table), or it
  contains one of the forbidden patterns without regard to case, or it has fewer than
  five distinct lower-case words; otherwise it returns \<open>True\<close>. The text "this is
  placeholder text" is rejected for \<open>description\<close> with a message that names the pattern
  \<open>placeholder\<close>, and an \<open>npc\<close> text whose stripped length is 160, with 60 distinct words
  and no forbidden pattern, passes.
\<close>

theorem validate_text_content_raises_iff:
  assumes "is_active w"
  shows "(raises_integrity (validate_text_content w category (PyStr text)) \<longleftrightarrow>
            py_strip text = []
          \<or> length (py_strip text) < min_length_for category
          \<or> list_ex (\<lambda>p. py_in (py_lower p) (py_lower text)) forbidden_patterns
          \<or> distinct_word_count text < 5)
       \<and> (\<not> raises_integrity (validate_text_content w category (PyStr text)) \<longrightarrow>
            validate_text_content w category (PyStr text) = Inr True)
       \<and> min_length_for ''description'' = 100
       \<and> min_length_for ''introduction'' = 200
       \<and> min_length_for ''npc'' = 150
       \<and> (map_of min_section_lengths (py_lower category) = None \<longrightarrow>
            min_length_for category = 100)
       \<and> validate_text_content w ''description'' (PyStr ''this is placeholder text'')
            = Inl (ContentIntegrityError
                    (forbidden_pattern_message ''placeholder'' ''description''))
       \<and> py_in ''placeholder'' (forbidden_pattern_message ''placeholder'' ''description'')
       \<and> (length (py_strip text) = 160 \<and> distinct_word_count text = 60
          \<and> \<not> list_ex (\<lambda>p. py_in (py_lower p) (py_lower text)) forbidden_patterns \<longrightarrow>
            validate_text_content w ''npc'' (PyStr text) = Inr True)"
proof -
  have w: "w = ContentIntegrityWatchdog_init True"
    using assms by (simp add: ContentIntegrityWatchdog_init_def)
  have a: "raises_integrity (validate_text_content w category (PyStr text)) \<longleftrightarrow>
            py_strip text = []
          \<or> length (py_strip text) < min_length_for category
          \<or> list_ex (\<lambda>p. py_in (py_lower p) (py_lower text)) forbidden_patterns
          \<or> distinct_word_count text < 5"
    using validate_text_content_passes_iff [OF assms, of category "text"]
    unfolding validate_text_content_raises_iff_fails by blast
  have b: "\<not> raises_integrity (validate_text_content w category (PyStr text)) \<longrightarrow>
            validate_text_content w category (PyStr text) = Inr True"
    by (simp add: validate_text_content_raises_iff_fails)
  have c: "length (py_strip text) = 160 \<and> distinct_word_count text = 60
          \<and> \<not> list_ex (\<lambda>p. py_in (py_lower p) (py_lower text)) forbidden_patterns \<longrightarrow>
            validate_text_content w ''npc'' (PyStr text) = Inr True"
    using validate_text_content_passes_iff [OF assms, of "''npc''" "text"]
    by (auto simp: min_length_for_table)
  show ?thesis
    using a b c min_length_for_table min_length_for_default [of category]
      placeholder_example placeholder_mentioned
    unfolding w by blast
qed

theorem validate_text_content_raises_iff_witness:
  "is_active (ContentIntegrityWatchdog_init True)
   \<and> length npc_text_160 = 160
   \<and> distinct_word_count npc_text_160 = 60
   \<and> validate_text_content (ContentIntegrityWatchdog_init True) ''npc'' (PyStr npc_text_160)
       = Inr True
   \<and> raises_integrity (validate_text_content (ContentIntegrityWatchdog_init True)
       ''description'' (PyStr ''this is placeholder text''))"
proof -
  have h: "is_active (ContentIntegrityWatchdog_init True)"
    by (simp add: ContentIntegrityWatchdog_init_def)
  have p: "validate_text_content (ContentIntegrityWatchdog_init True) ''npc''
             (PyStr npc_text_160) = Inr True"
    using validate_text_content_raises_iff [OF h, of "''npc''" npc_text_160]
      npc_text_160_facts by blast
  have q: "raises_integrity (validate_text_content (ContentIntegrityWatchdog_init True)
       ''description'' (PyStr ''this is placeholder text''))"
    using validate_text_content_raises_iff [OF h, of "''description''" "''x''"]
    by (simp add: raises_integrity_def)
  show ?thesis using h p q npc_text_160_facts by simp
qed

section \<open>The inactive watchdog\<close>

text \<open>
  Claim C10. A watchdog constructed with \<open>is_active = False\<close>, or set to it by
  \<open>set_active\<close>, returns \<open>True\<close> from \<open>validate_text_content\<close>, \<open>validate_image_prompt\<close>,
  \<open>validate_entire_campaign\<close> and \<open>validate_campaign_concept\<close> for every input: the
  integrity gate is bypassed without any error.
\<close>

theorem inactive_watchdog_accepts_everything:
  "validate_text_content (ContentIntegrityWatchdog_init False) section_name v = Inr True
   \<and> validate_image_prompt (ContentIntegrityWatchdog_init False) image_prompt = Inr True
   \<and> validate_entire_campaign (ContentIntegrityWatchdog_init False) campaign = Inr True
   \<and> validate_campaign_concept (ContentIntegrityWatchdog_init False) concept = Inr True
   \<and> validate_text_content (set_active w False) section_name v = Inr True
   \<and> validate_image_prompt (set_active w False) image_prompt = Inr True
   \<and> validate_entire_campaign (set_active w False) campaign = Inr True
   \<and> validate_campaign_concept (set_active w False) concept = Inr True"
  by (simp add: validate_text_content_def validate_image_prompt_def
      validate_entire_campaign_def validate_campaign_concept_def
      ContentIntegrityWatchdog_init_def set_active_def)

theorem inactive_watchdog_accepts_everything_witness:
  "validate_text_content (ContentIntegrityWatchdog_init False) ''description'' (PyStr [])
     = Inr True
   \<and> validate_text_content (set_active (ContentIntegrityWatchdog_init True) False)
       ''description'' (PyStr ''this is placeholder text'') = Inr True
   \<and> validate_image_prompt (ContentIntegrityWatchdog_init False) (PyStr ''[placeholder]'')
     = Inr True
   \<and> validate_campaign_concept (ContentIntegrityWatchdog_init False) PyNone = Inr True"
  using inactive_watchdog_accepts_everything
    [of "''description''" "PyStr []" "PyStr ''[placeholder]''" undefined PyNone
        "ContentIntegrityWatchdog_init True"]
    inactive_watchdog_accepts_everything
    [of "''description''" "PyStr ''this is placeholder text''" "PyStr ''[placeholder]''"
        undefined PyNone "ContentIntegrityWatchdog_init True"]
  by blast

section \<open>The content cache\<close>

lemma set_then_get:
  assumes "writable fs"
  shows "fst (ContentCacheService_set svc now fs key v ttl)
       \<and> ContentCacheService_get svc (snd (ContentCacheService_set svc now fs key v ttl)) key = v"
  using assms by (simp add: ContentCacheService_set_def ContentCacheService_get_def Let_def)

lemma get_reads_no_clock:
  assumes "writable fs"
  shows "is_expired svc later (snd (ContentCacheService_set svc now fs key v ttl)) key
           \<longleftrightarrow> now + ttl < later"
  using assms by (simp add: ContentCacheService_set_def is_expired_def Let_def)

text \<open>
  Claim C1, at the input where the code departs from it. An entry written at time 0 with
  a time to live of one second is expired at time 2, as \<open>is_expired\<close> reports, and \<open>get\<close>
  at that time still returns the stored value instead of a miss; the file is not removed.
\<close>

theorem get_returns_expired_entry:
  "fst (ContentCacheService_set svc 0 \<lparr>files = Map.empty, writable = True\<rparr> ''k''
          (PyStr ''a sufficiently long and varied piece of content'') 1)
   \<and> is_expired svc 2
        (snd (ContentCacheService_set svc 0 \<lparr>files = Map.empty, writable = True\<rparr> ''k''
          (PyStr ''a sufficiently long and varied piece of content'') 1)) ''k''
   \<and> ContentCacheService_get svc
        (snd (ContentCacheService_set svc 0 \<lparr>files = Map.empty, writable = True\<rparr> ''k''
          (PyStr ''a sufficiently long and varied piece of content'') 1)) ''k''
       = PyStr ''a sufficiently long and varied piece of content''
   \<and> ContentCacheService_exists svc
        (snd (ContentCacheService_set svc 0 \<lparr>files = Map.empty, writable = True\<rparr> ''k''
          (PyStr ''a sufficiently long and varied piece of content'') 1)) ''k''"
  by (simp add: ContentCacheService_set_def ContentCacheService_get_def is_expired_def
      ContentCacheService_exists_def Let_def)

section \<open>Usage accounting of the monitoring service\<close>

lemma sum_list_update_present:
  "map_of al k = Some n \<Longrightarrow>
   sum_list (map snd (AList.update k m al)) + n = sum_list (map snd al) + (m::nat)"
  by (induction al) (auto split: if_splits)

lemma sum_list_update_absent:
  "map_of al k = None \<Longrightarrow>
   sum_list (map snd (AList.update k m al)) = sum_list (map snd al) + (m::nat)"
  by (induction al) (auto split: if_splits)

lemma total_calls_track_api_call:
  "total_calls (get_api_usage_summary (track_api_call ws api_name token_count response_time cost))
   = total_calls (get_api_usage_summary ws) + 1"
proof (cases "map_of (api_calls ws) api_name")
  case None
  then show ?thesis
    by (cases cost)
      (simp_all add: get_api_usage_summary_def track_api_call_def track_metric_def Let_def
        sum_list_update_absent)
next
  case (Some n)
  then show ?thesis
    using sum_list_update_present [OF Some, of "n + 1"]
    by (cases cost)
      (simp_all add: get_api_usage_summary_def track_api_call_def track_metric_def Let_def)
qed

lemma total_calls_track_api_calls:
  "total_calls (get_api_usage_summary (track_api_calls ws invocations))
   = total_calls (get_api_usage_summary ws) + length invocations"
  by (induction ws invocations rule: track_api_calls.induct)
    (simp_all add: total_calls_track_api_call)

lemma total_calls_fresh:
  "total_calls (get_api_usage_summary (track_api_calls (WatchdogService_init t) invocations))
   = length invocations"
  by (simp add: total_calls_track_api_calls)
    (simp add: get_api_usage_summary_def WatchdogService_init_def)

lemma estimate_of_update:
  "estimate_of (AList.update k v al) k' = (if k' = k then v else estimate_of al k')"
  by (simp add: estimate_of_def update_conv')

lemma total_cost_track_api_call:
  assumes "api_name \<noteq> ''total''"
  shows "total_estimated_cost
           (get_api_usage_summary (track_api_call ws api_name token_count response_time cost))
         = total_estimated_cost (get_api_usage_summary ws)
           + (case cost of Some c \<Rightarrow> c | None \<Rightarrow> 0)"
  using assms
  by (cases cost)
    (auto simp: get_api_usage_summary_def track_api_call_def track_metric_def Let_def
      estimate_of_update split: option.splits)

lemma total_cost_track_api_calls:
  assumes "\<forall>i \<in> set invocations. fst i \<noteq> ''total''"
  shows "total_estimated_cost (get_api_usage_summary (track_api_calls ws invocations))
         = total_estimated_cost (get_api_usage_summary ws) + cost_arguments_sum invocations"
  using assms
proof (induction ws invocations rule: track_api_calls.induct)
  case (1 ws)
  then show ?case by (simp add: cost_arguments_sum_def)
next
  case (2 ws api_name token_count response_time cost rest)
  then have "api_name \<noteq> ''total''" by simp
  from total_cost_track_api_call [OF this] 2 show ?case
    by (simp add: cost_arguments_sum_def)
qed

text \<open>
  Claim C9, at the input where the code departs from it. One call of \<open>track_api_call\<close>
  with the API name \<open>"total"\<close> and the cost 0.02 gives \<open>total_calls = 1\<close>, and a
  \<open>total_estimated_cost\<close> of 0.04, twice the cost argument: the name of the API is also
  the key of the running total in \<open>cost_estimates\<close>, and the cost is added to it twice.
  The same call for \<open>"providerA"\<close> gives 1 and 0.02.
\<close>

theorem total_cost_counted_twice_for_total:
  "total_calls (get_api_usage_summary
      (track_api_call (WatchdogService_init 3) ''total'' 500 (5 / 2) (Some (1 / 50)))) = 1
   \<and> total_estimated_cost (get_api_usage_summary
      (track_api_call (WatchdogService_init 3) ''total'' 500 (5 / 2) (Some (1 / 50)))) = 1 / 25
   \<and> cost_arguments_sum [(''total'', 500, 5 / 2, Some (1 / 50))] = 1 / 50
   \<and> total_calls (get_api_usage_summary
      (track_api_call (WatchdogService_init 3) ''providerA'' 500 (5 / 2) (Some (1 / 50)))) = 1
   \<and> total_estimated_cost (get_api_usage_summary
      (track_api_call (WatchdogService_init 3) ''providerA'' 500 (5 / 2) (Some (1 / 50))))
      = 1 / 50"
  by (simp add: get_api_usage_summary_def track_api_call_def track_metric_def Let_def
      WatchdogService_init_def estimate_of_def cost_arguments_sum_def)

section \<open>The generator client\<close>

lemma length_py_strip_le: "length (py_strip s) \<le> length s"
proof -
  have "length (py_strip s) \<le> length (dropWhile py_isspace s)"
    unfolding py_strip_def using length_dropWhile_le [of py_isspace "rev (dropWhile py_isspace s)"]
    by simp
  also have "\<dots> \<le> length s" by (rule length_dropWhile_le)
  finally show ?thesis .
qed

lemma fixed_replies_short:
  "length (py_strip (reply_content mock_reply)) \<le> 50"
  "length (py_strip (reply_content fallback_reply)) \<le> 50"
  "length (py_strip ''Content generation failed'') \<le> 50"
  using length_py_strip_le [of "reply_content mock_reply"]
    length_py_strip_le [of "reply_content fallback_reply"]
    length_py_strip_le [of "''Content generation failed''"]
  by (simp_all add: mock_reply_def fallback_reply_def)

lemma response_integrity_check_passed:
  assumes "is_active w" "response_integrity_check w c = Inr u"
  shows "c = [] \<or> length (py_strip c) \<le> 50
         \<or> validate_text_content w ''ai_response'' (PyStr c) = Inr True"
  using assms validate_text_content_outcome [of w "''ai_response''" "PyStr c"]
  by (auto simp: response_integrity_check_def raises_integrity_def
      split: if_splits sum.splits)

lemma call_claude_api_failure:
  "fst (api_failure_handler response_time svc e) = fallback_reply"
  "requests (snd (api_failure_handler response_time svc e)) = requests svc"
  by (simp_all add: api_failure_handler_def)

lemma call_claude_api_reply:
  assumes "is_active (claude_integrity_watchdog svc)"
  shows "reply_content (fst (call_claude_api create response_time svc prompt)) = []
       \<or> length (py_strip (reply_content (fst (call_claude_api create response_time svc prompt))))
           \<le> 50
       \<or> validate_text_content (claude_integrity_watchdog svc) ''ai_response''
            (PyStr (reply_content (fst (call_claude_api create response_time svc prompt))))
           = Inr True"
proof (cases "client_available svc")
  case False
  then show ?thesis by (simp add: call_claude_api_def fixed_replies_short)
next
  case True
  show ?thesis
  proof (cases "create (length (requests svc)) prompt")
    case (Raises e)
    with True show ?thesis
      by (simp add: call_claude_api_def Let_def call_claude_api_failure fixed_replies_short)
  next
    case (Responds response)
    define c where "c = (case response_text response of Some t \<Rightarrow> t | None \<Rightarrow> [])"
    show ?thesis
    proof (cases "response_integrity_check (claude_integrity_watchdog svc) c")
      case (Inl e)
      with True Responds show ?thesis
        by (simp add: call_claude_api_def Let_def c_def call_claude_api_failure
            fixed_replies_short)
    next
      case (Inr u)
      from response_integrity_check_passed [OF assms Inr] True Responds Inr show ?thesis
        by (simp add: call_claude_api_def Let_def c_def)
    qed
  qed
qed

lemma call_claude_api_requests:
  assumes "client_available svc"
  shows "requests (snd (call_claude_api create response_time svc prompt))
         = requests svc @ [prompt]"
  using assms
  by (simp add: call_claude_api_def Let_def api_failure_handler_def
      split: api_outcome.splits sum.splits)

lemma call_claude_api_raises:
  assumes "client_available svc" "create (length (requests svc)) prompt = Raises e"
  shows "fst (call_claude_api create response_time svc prompt) = fallback_reply"
  using assms by (simp add: call_claude_api_def Let_def api_failure_handler_def)

lemma parse_section_content_response_eq:
  "parse_section_content_response r
   = (if reply_content r = [] then ''Content generation failed'' else reply_content r)"
  by (simp add: parse_section_content_response_def Let_def)

lemma parse_fallback_reply:
  "parse_section_content_response fallback_reply = ''Error generating content with Claude API''"
  "parse_section_content_response mock_reply = ''Mock Claude response - client not available''"
  by (simp_all add: parse_section_content_response_eq fallback_reply_def mock_reply_def)

lemma generate_section_content_fst:
  "fst (generate_section_content create response_time svc prompt)
   = Inr (parse_section_content_response (fst (call_claude_api create response_time svc prompt)))"
  by (simp add: generate_section_content_def split_beta)

lemma generate_section_content_snd:
  "snd (generate_section_content create response_time svc prompt)
   = snd (call_claude_api create response_time svc prompt)"
  by (simp add: generate_section_content_def split_beta)

text \<open>
  Claim C2 fails as stated: when the external call raises, the generate operation raises
  nothing and returns the fixed text "Error generating content with Claude API" as the
  content of the section.
\<close>

theorem generate_returns_canned_text_counterexample:
  "fst (generate_section_content always_failing 1 claude_service_0 ''Write the introduction'')
   = Inr ''Error generating content with Claude API''"
  by (simp add: generate_section_content_fst parse_fallback_reply
      call_claude_api_raises [where e = "''Request timed out.''"]
      claude_service_0_def always_failing_def)

text \<open>
  Claim C2, amended. When the external call raises, \<open>_call_claude_api\<close> raises nothing: it
  returns the fixed fallback reply, whose content "Error generating content with Claude
  API" the generate operation returns as if it were generated; when no client is
  configured it returns the fixed mock reply "Mock Claude response - client not
  available" without any external call. (What is returned for content that fails the
  integrity validator is not part of the amended claim.)
\<close>

theorem external_failure_returns_fallback:
  "(client_available svc \<and> create (length (requests svc)) prompt = Raises e \<longrightarrow>
      fst (call_claude_api create response_time svc prompt) = fallback_reply
      \<and> fst (generate_section_content create response_time svc prompt)
          = Inr ''Error generating content with Claude API'')
   \<and> (\<not> client_available svc \<longrightarrow>
      fst (call_claude_api create response_time svc prompt) = mock_reply
      \<and> requests (snd (call_claude_api create response_time svc prompt)) = requests svc
      \<and> fst (generate_section_content create response_time svc prompt)
          = Inr ''Mock Claude response - client not available'')"
proof -
  have a: "client_available svc \<and> create (length (requests svc)) prompt = Raises e \<longrightarrow>
      fst (call_claude_api create response_time svc prompt) = fallback_reply
      \<and> fst (generate_section_content create response_time svc prompt)
          = Inr ''Error generating content with Claude API''"
    by (simp add: generate_section_content_fst call_claude_api_raises parse_fallback_reply)
  have b: "\<not> client_available svc \<longrightarrow>
      fst (call_claude_api create response_time svc prompt) = mock_reply
      \<and> requests (snd (call_claude_api create response_time svc prompt)) = requests svc
      \<and> fst (generate_section_content create response_time svc prompt)
          = Inr ''Mock Claude response - client not available''"
    by (simp add: generate_section_content_fst call_claude_api_def parse_fallback_reply)
  from a b show ?thesis by blast
qed

theorem external_failure_returns_fallback_witness:
  "client_available claude_service_0
   \<and> always_failing (length (requests claude_service_0)) ''Write the introduction''
       = Raises ''Request timed out.''
   \<and> fst (call_claude_api always_failing 1 claude_service_0 ''Write the introduction'')
       = fallback_reply
   \<and> \<not> client_available (claude_service_0\<lparr>client_available := False\<rparr>)
   \<and> fst (call_claude_api always_failing 1 (claude_service_0\<lparr>client_available := False\<rparr>)
          ''Write the introduction'') = mock_reply"
proof -
  have h1: "client_available claude_service_0
      \<and> always_failing (length (requests claude_service_0)) ''Write the introduction''
          = Raises ''Request timed out.''"
    by (simp add: claude_service_0_def always_failing_def)
  have h2: "\<not> client_available (claude_service_0\<lparr>client_available := False\<rparr>)"
    by simp
  from h1 external_failure_returns_fallback
         [of claude_service_0 always_failing "''Write the introduction''"
             "''Request timed out.''" 1]
  have r1: "fst (call_claude_api always_failing 1 claude_service_0 ''Write the introduction'')
       = fallback_reply" by blast
  from h2 external_failure_returns_fallback
         [of "claude_service_0\<lparr>client_available := False\<rparr>" always_failing
             "''Write the introduction''" "''Request timed out.''" 1]
  have r2: "fst (call_claude_api always_failing 1
          (claude_service_0\<lparr>client_available := False\<rparr>) ''Write the introduction'')
       = mock_reply" by blast
  from h1 h2 r1 r2 show ?thesis by blast
qed

text \<open>
  Claim C3 fails as stated: with a generator that fails on the first request and would
  answer the second, one request is made, none is repeated, and the fallback reply is
  returned.
\<close>

theorem no_retry_counterexample:
  "requests (snd (call_claude_api failing_once 1 claude_service_0 ''Write the introduction''))
     = [''Write the introduction'']
   \<and> fst (call_claude_api failing_once 1 claude_service_0 ''Write the introduction'')
     = fallback_reply"
  by (simp add: call_claude_api_requests
      call_claude_api_raises [where e = "''Request timed out.''"]
      claude_service_0_def failing_once_def)

text \<open>
  Claim C3, amended. With a client configured, every call of \<open>_call_claude_api\<close> makes
  exactly one external request, with the prompt it was given, whatever the outcome: a
  failed request is not retried. After a failure the fallback reply is returned and the
  generate operation returns a content, not an error.
\<close>

theorem exactly_one_request_per_call:
  assumes "client_available svc"
  shows "requests (snd (call_claude_api create response_time svc prompt))
           = requests svc @ [prompt]
       \<and> requests (snd (generate_section_content create response_time svc prompt))
           = requests svc @ [prompt]
       \<and> (create (length (requests svc)) prompt = Raises e \<longrightarrow>
            fst (call_claude_api create response_time svc prompt) = fallback_reply
            \<and> \<not> isl (fst (generate_section_content create response_time svc prompt)))"
  using assms
  by (simp add: call_claude_api_requests generate_section_content_snd
      generate_section_content_fst call_claude_api_raises)

theorem exactly_one_request_per_call_witness:
  "client_available claude_service_0
   \<and> requests (snd (call_claude_api failing_once 1 claude_service_0 ''Write the introduction''))
       = requests claude_service_0 @ [''Write the introduction'']
   \<and> length (requests (snd (call_claude_api failing_once 1 claude_service_0
       ''Write the introduction''))) = 1"
proof -
  have h: "client_available claude_service_0" by (simp add: claude_service_0_def)
  from exactly_one_request_per_call [OF h, of failing_once 1 "''Write the introduction''"]
  have r: "requests (snd (call_claude_api failing_once 1 claude_service_0
       ''Write the introduction'')) = requests claude_service_0 @ [''Write the introduction'']"
    by blast
  then have "length (requests (snd (call_claude_api failing_once 1 claude_service_0
       ''Write the introduction''))) = 1"
    by (simp add: claude_service_0_def)
  with h r show ?thesis by blast
qed

text \<open>
  Claim C8 fails as stated: a generator that answers with the five characters "short"
  makes the generate operation return them, although the minimum for an introduction is
  200 characters and the smallest minimum of the table is 100.
\<close>

theorem short_content_returned_counterexample:
  "fst (generate_section_content answering_short 1 claude_service_0 ''Write the introduction'')
     = Inr ''short''
   \<and> length ''short'' < min_length_for ''introduction''
   \<and> length ''short'' < min_length_for ''default''"
  by code_simp

text \<open>
  Claim C8, amended. With the watchdog active, the content returned by the generate
  operation either has a stripped length of at most 50 characters (the fixed mock,
  fallback and failure texts, and every short answer, which is returned unchecked), or it
  passed \<open>validate_text_content\<close> under the name \<open>ai_response\<close> and so has a stripped length
  of at least 100, the default minimum, whatever the kind of the section.
\<close>

theorem returned_content_short_or_validated:
  assumes "is_active (claude_integrity_watchdog svc)"
    and "fst (generate_section_content create response_time svc prompt) = Inr t"
  shows "length (py_strip t) \<le> 50
       \<or> (validate_text_content (claude_integrity_watchdog svc) ''ai_response'' (PyStr t)
            = Inr True
          \<and> 100 \<le> length (py_strip t))"
proof -
  let ?r = "fst (call_claude_api create response_time svc prompt)"
  have t: "t = parse_section_content_response ?r"
    using assms(2) by (simp add: generate_section_content_fst)
  show ?thesis
  proof (cases "reply_content ?r = []")
    case True
    then show ?thesis using t fixed_replies_short(3)
      by (simp add: parse_section_content_response_eq)
  next
    case False
    then have tc: "t = reply_content ?r"
      using t by (simp add: parse_section_content_response_eq)
    from call_claude_api_reply [OF assms(1), of create response_time prompt] False
    have "length (py_strip t) \<le> 50
       \<or> validate_text_content (claude_integrity_watchdog svc) ''ai_response'' (PyStr t)
            = Inr True"
      unfolding tc by blast
    moreover have "validate_text_content (claude_integrity_watchdog svc) ''ai_response''
        (PyStr t) = Inr True \<Longrightarrow> 100 \<le> length (py_strip t)"
      using validate_text_content_passes_iff [OF assms(1), of "''ai_response''" t]
        min_length_for_ge [of "''ai_response''"] by auto
    ultimately show ?thesis by blast
  qed
qed

theorem returned_content_short_or_validated_witness:
  "is_active (claude_integrity_watchdog claude_service_0)
   \<and> fst (generate_section_content (\<lambda>n. failing_once (Suc n)) 1 claude_service_0
            ''Write the introduction'') = Inr npc_text_160
   \<and> validate_text_content (claude_integrity_watchdog claude_service_0) ''ai_response''
        (PyStr npc_text_160) = Inr True
   \<and> 100 \<le> length (py_strip npc_text_160)"
proof -
  have h: "is_active (claude_integrity_watchdog claude_service_0)"
    by (simp add: claude_service_0_def ContentIntegrityWatchdog_init_def)
  have g: "fst (generate_section_content (\<lambda>n. failing_once (Suc n)) 1 claude_service_0
            ''Write the introduction'') = Inr npc_text_160"
    by code_simp
  have l: "\<not> length (py_strip npc_text_160) \<le> 50"
    by (simp add: npc_text_160_facts)
  from returned_content_short_or_validated [OF h g] l h g show ?thesis by blast
qed

section \<open>A cached section that fails re-validation\<close>

lemma generate_new_content_store:
  "store (snd (generate_new_content svc campaign sec_id sec_title ci mode st)) = store st
   \<or> (\<exists>new_content now.
        validate_text_content (content_integrity_watchdog svc) sec_id (PyStr new_content)
          = Inr True
        \<and> store (snd (generate_new_content svc campaign sec_id sec_title ci mode st))
          = snd (ContentCacheService_set (content_cache svc) now (store st)
                   (section_cache_key campaign sec_id) (PyStr new_content) 3600))"
proof (cases "ai_generate_section (collaborators svc) sec_id campaign ci mode (world st)")
  case (Pair r w')
  show ?thesis
  proof (cases r)
    case (Inl e)
    with Pair show ?thesis by (simp add: generate_new_content_def)
  next
    case (Inr c)
    show ?thesis
    proof (cases "c = []")
      case True
      with Pair Inr show ?thesis by (simp add: generate_new_content_def)
    next
      case False
      show ?thesis
      proof (cases "validate_text_content (content_integrity_watchdog svc) sec_id (PyStr c)")
        case (Inl e)
        with Pair \<open>r = Inr c\<close> False show ?thesis by (simp add: generate_new_content_def)
      next
        case (Inr b)
        then have v: "validate_text_content (content_integrity_watchdog svc) sec_id (PyStr c)
            = Inr True"
          using validate_text_content_outcome
            [of "content_integrity_watchdog svc" sec_id "PyStr c"]
          by (simp add: raises_integrity_def)
        have "store (snd (generate_new_content svc campaign sec_id sec_title ci mode st))
          = snd (ContentCacheService_set (content_cache svc) (clock (collaborators svc) w')
                   (store st) (section_cache_key campaign sec_id) (PyStr c) 3600)"
          using Pair \<open>r = Inr c\<close> False Inr
          by (simp add: generate_new_content_def split_beta)
        with v show ?thesis by blast
      qed
    qed
  qed
qed

lemma set_keeps_entry:
  "files fs p \<noteq> None \<Longrightarrow>
   files (snd (ContentCacheService_set cache now fs key v ttl)) p \<noteq> None"
  by (simp add: ContentCacheService_set_def Let_def)

lemma stale_hit_regenerates:
  assumes "ContentCacheService_get (content_cache svc) (store st)
             (section_cache_key campaign sec_id) = PyStr cached"
    and "cached \<noteq> []"
    and "raises_integrity
           (validate_text_content (content_integrity_watchdog svc) sec_id (PyStr cached))"
  shows "generate_section_with_cache svc campaign sec_id sec_title ci mode st
           = generate_new_content svc campaign sec_id sec_title ci mode st"
  using assms
  by (auto simp: generate_section_with_cache_def raises_integrity_def split: sum.splits)

lemma stale_store_lookup:
  "ContentCacheService_get (content_cache (scripted_service PyNone (\<lambda>sec_id. Inr [])))
      (store \<lparr>store = stale_store, world = ()\<rparr>)
      (section_cache_key example_campaign ''introduction'')
     = PyStr ''this is placeholder text''"
  by code_simp

lemma stale_store_rejected:
  "raises_integrity
     (validate_text_content
        (content_integrity_watchdog (scripted_service PyNone (\<lambda>sec_id. Inr [])))
        ''introduction'' (PyStr ''this is placeholder text''))"
  by code_simp

lemma empty_answer_generation:
  "generate_new_content (scripted_service PyNone (\<lambda>sec_id. Inr []))
      example_campaign ''introduction'' ''Introduction'' None ''production''
      \<lparr>store = stale_store, world = ()\<rparr>
   = (Inr \<lparr>section_id = ''introduction'', title = ''Introduction'',
            content = ''Error generating Introduction section'', images = [],
            metadata = Generated\<rparr>,
      \<lparr>store = stale_store, world = ()\<rparr>)"
  by (simp add: generate_new_content_def scripted_service_def scripted_collaborators_def)

text \<open>
  Claim C7 fails as stated: the cache holds, for the introduction, a text that the
  watchdog rejects, and the generator answers with the empty string. The orchestrator
  returns the section "Error generating Introduction section" and the rejected entry is
  still in the cache afterwards, unchanged.
\<close>

theorem stale_entry_not_purged_counterexample:
  "ContentCacheService_get (content_cache (scripted_service PyNone (\<lambda>sec_id. Inr [])))
      (store \<lparr>store = stale_store, world = ()\<rparr>)
      (section_cache_key example_campaign ''introduction'')
     = PyStr ''this is placeholder text''
   \<and> raises_integrity
        (validate_text_content
           (content_integrity_watchdog (scripted_service PyNone (\<lambda>sec_id. Inr [])))
           ''introduction'' (PyStr ''this is placeholder text''))
   \<and> generate_section_with_cache (scripted_service PyNone (\<lambda>sec_id. Inr []))
        example_campaign ''introduction'' ''Introduction'' None ''production''
        \<lparr>store = stale_store, world = ()\<rparr>
     = (Inr \<lparr>section_id = ''introduction'', title = ''Introduction'',
              content = ''Error generating Introduction section'', images = [],
              metadata = Generated\<rparr>,
        \<lparr>store = stale_store, world = ()\<rparr>)"
  using stale_hit_regenerates [OF stale_store_lookup _ stale_store_rejected]
    stale_store_lookup stale_store_rejected empty_answer_generation
  by simp

text \<open>
  Claim C7, amended. When the cached content of a section is found at lookup and fails
  re-validation, the orchestrator does not delete the entry: it goes on exactly as it
  does on a cache miss, by generating new content, and the failure of the re-validation
  is not raised. The entry stays in the content store; it is replaced only when the
  newly generated content is not empty and passes validation, and then by that content.
\<close>

theorem stale_entry_regenerated_not_deleted:
  assumes "ContentCacheService_get (content_cache svc) (store st)
             (section_cache_key campaign sec_id) = PyStr cached"
    and "cached \<noteq> []"
    and "raises_integrity
           (validate_text_content (content_integrity_watchdog svc) sec_id (PyStr cached))"
  shows "generate_section_with_cache svc campaign sec_id sec_title ci mode st
           = generate_new_content svc campaign sec_id sec_title ci mode st
       \<and> files (store (snd (generate_section_with_cache svc campaign sec_id sec_title ci
                              mode st)))
            (get_cache_path (content_cache svc) (section_cache_key campaign sec_id)) \<noteq> None
       \<and> (store (snd (generate_section_with_cache svc campaign sec_id sec_title ci mode st))
            = store st
          \<or> (\<exists>new_content now.
               validate_text_content (content_integrity_watchdog svc) sec_id
                 (PyStr new_content) = Inr True
               \<and> store (snd (generate_section_with_cache svc campaign sec_id sec_title ci
                               mode st))
                 = snd (ContentCacheService_set (content_cache svc) now (store st)
                          (section_cache_key campaign sec_id) (PyStr new_content) 3600)))"
proof -
  let ?p = "get_cache_path (content_cache svc) (section_cache_key campaign sec_id)"
  have eq: "generate_section_with_cache svc campaign sec_id sec_title ci mode st
           = generate_new_content svc campaign sec_id sec_title ci mode st"
    using assms by (rule stale_hit_regenerates)
  have present: "files (store st) ?p \<noteq> None"
    using assms(1) by (auto simp: ContentCacheService_get_def split: option.splits)
  have st: "store (snd (generate_new_content svc campaign sec_id sec_title ci mode st))
            = store st
          \<or> (\<exists>new_content now.
               validate_text_content (content_integrity_watchdog svc) sec_id
                 (PyStr new_content) = Inr True
               \<and> store (snd (generate_new_content svc campaign sec_id sec_title ci mode st))
                 = snd (ContentCacheService_set (content_cache svc) now (store st)
                          (section_cache_key campaign sec_id) (PyStr new_content) 3600))"
    by (rule generate_new_content_store)
  then have kept: "files (store (snd (generate_new_content svc campaign sec_id sec_title ci
                              mode st))) ?p \<noteq> None"
    using present set_keeps_entry [OF present] by auto
  from eq st kept show ?thesis by simp
qed

theorem stale_entry_regenerated_not_deleted_witness:
  "ContentCacheService_get (content_cache (scripted_service PyNone (\<lambda>sec_id. Inr [])))
      (store \<lparr>store = stale_store, world = ()\<rparr>)
      (section_cache_key example_campaign ''introduction'')
     = PyStr ''this is placeholder text''
   \<and> ''this is placeholder text'' \<noteq> []
   \<and> raises_integrity
        (validate_text_content
           (content_integrity_watchdog (scripted_service PyNone (\<lambda>sec_id. Inr [])))
           ''introduction'' (PyStr ''this is placeholder text''))
   \<and> generate_section_with_cache (scripted_service PyNone (\<lambda>sec_id. Inr []))
        example_campaign ''introduction'' ''Introduction'' None ''production''
        \<lparr>store = stale_store, world = ()\<rparr>
     = generate_new_content (scripted_service PyNone (\<lambda>sec_id. Inr []))
        example_campaign ''introduction'' ''Introduction'' None ''production''
        \<lparr>store = stale_store, world = ()\<rparr>"
proof -
  have h2: "''this is placeholder text'' \<noteq> []" by simp
  from stale_entry_regenerated_not_deleted [OF stale_store_lookup h2 stale_store_rejected]
    stale_store_lookup h2 stale_store_rejected
  show ?thesis by blast
qed

end
